theory Spec2Isabelle
  imports Main "HOL-Library.Sublist"
begin

section \<open>Rows-per-page options of the table footer pagination\<close>

text \<open>
  The development embeds \<^verbatim>\<open>TableFooterPagination.tsx\<close> of the adoption-insights
  plugin: the function \<^verbatim>\<open>generateRowsPerPageOptions\<close> and the part of the component
  \<^verbatim>\<open>TableFooterPagination\<close> that decides whether anything is rendered.

  A TypeScript \<^verbatim>\<open>number\<close> that holds an integer is an \<open>int\<close> here. The one
  non-integer number the function can compute is \<^verbatim>\<open>-Infinity\<close>, the result of
  \<^verbatim>\<open>Math.max()\<close> on no arguments, so the results of \<^verbatim>\<open>Math.max\<close> have a type of
  their own.
\<close>

subsection \<open>Numbers\<close>

datatype jsnum = NegInfinity | Num int

text \<open>\<^verbatim>\<open>Math.max(...xs)\<close>: \<^verbatim>\<open>-Infinity\<close> for no arguments, the greatest otherwise.\<close>

fun Math_max :: "int list \<Rightarrow> jsnum" where
  "Math_max [] = NegInfinity"
| "Math_max (x # xs) = (case Math_max xs of NegInfinity \<Rightarrow> Num x | Num m \<Rightarrow> Num (max x m))"

text \<open>\<^verbatim>\<open>x + 1\<close>: \<^verbatim>\<open>-Infinity + 1\<close> is \<^verbatim>\<open>-Infinity\<close>.\<close>

fun plus_num :: "jsnum \<Rightarrow> int \<Rightarrow> jsnum" where
  "plus_num NegInfinity k = NegInfinity"
| "plus_num (Num m) k = Num (m + k)"

text \<open>\<^verbatim>\<open>t <= x\<close>, \<^verbatim>\<open>t === x\<close> and \<^verbatim>\<open>t > x\<close> for an integer \<open>t\<close>.\<close>

fun le_num :: "int \<Rightarrow> jsnum \<Rightarrow> bool" where
  "le_num t NegInfinity = False"
| "le_num t (Num m) = (t \<le> m)"

fun strict_eq_num :: "int \<Rightarrow> jsnum \<Rightarrow> bool" where
  "strict_eq_num t NegInfinity = False"
| "strict_eq_num t (Num m) = (t = m)"

fun gt_num :: "int \<Rightarrow> jsnum \<Rightarrow> bool" where
  "gt_num t NegInfinity = True"
| "gt_num t (Num m) = (t > m)"

subsection \<open>Labels\<close>

text \<open>
  The template literal \<^verbatim>\<open>`Top ${value}`\<close> writes the number in decimal. (A number of
  magnitude \<open>10\<^sup>2\<^sup>1\<close> or more would be written with an exponent; every number that
  reaches a label here is between 1 and 20.)
\<close>

definition digit_char :: "nat \<Rightarrow> char" where
  "digit_char d = ''0123456789'' ! d"

function digits :: "nat \<Rightarrow> string" where
  "digits n = (if n < 10 then [digit_char n] else digits (n div 10) @ [digit_char (n mod 10)])"
  by pat_completeness auto
termination
  by (relation "measure (\<lambda>n. n)") auto

declare digits.simps [simp del]

definition toString :: "int \<Rightarrow> string" where
  "toString v = (if v < 0 then CHR ''-'' # digits (nat (- v)) else digits (nat v))"

text \<open>The field \<^verbatim>\<open>value\<close> of an option is \<open>val\<close>.\<close>

record rows_option =
  label :: string
  val :: int

definition mkOption :: "int \<Rightarrow> rows_option" where
  "mkOption v = \<lparr>label = ''Top '' @ toString v, val = v\<rparr>"

subsection \<open>The option generator\<close>

definition defaultOptions :: "int list" where
  "defaultOptions = [3, 5, 10, 20]"

text \<open>\<^verbatim>\<open>xs.includes(x)\<close>, and \<^verbatim>\<open>xs.slice(0, -1)\<close>: all of \<open>xs\<close> but its last
  element, the empty array for the empty array.\<close>

definition array_includes :: "int list \<Rightarrow> int \<Rightarrow> bool" where
  "array_includes xs x = List.member xs x"

definition slice_0_minus1 :: "'a list \<Rightarrow> 'a list" where
  "slice_0_minus1 xs = take (length xs - 1) xs"

definition generateRowsPerPageOptions :: "int \<Rightarrow> rows_option list" where
  "generateRowsPerPageOptions totalCount =
    (let maxDefaultOption = Math_max defaultOptions;
         fallthrough = map mkOption (filter (\<lambda>option. option \<le> totalCount) defaultOptions)
     in
     if totalCount > 0 \<and> le_num totalCount maxDefaultOption
          \<and> \<not> array_includes defaultOptions totalCount
     then
       (let validDefaults = filter (\<lambda>option. option < totalCount) defaultOptions;
            lastValidDefault = Math_max validDefaults
        in
        if strict_eq_num totalCount (plus_num lastValidDefault 1) then
          map mkOption
            (if length validDefaults > 1
             then slice_0_minus1 validDefaults @ [totalCount]
             else validDefaults @ [totalCount])
        else if gt_num totalCount (plus_num lastValidDefault 1) then
          map mkOption (validDefaults @ [totalCount])
        else fallthrough)
     else fallthrough)"

subsection \<open>The component\<close>

text \<open>
  The props, with the two handlers as values of any type: the component passes them on
  and never calls them.
\<close>

record ('p, 'r) TableFooterPaginationProps =
  count :: int
  rowsPerPage :: int
  page :: int
  handleChangePage :: 'p
  handleChangeRowsPerPage :: 'r

text \<open>
  What the component returns: \<open>None\<close> for \<^verbatim>\<open>null\<close>, and otherwise the box with the
  \<^verbatim>\<open>TablePagination\<close> and the props that depend on the component's input (the styling
  is constant).
\<close>

datatype ('p, 'r) element =
  TablePagination
    (el_rowsPerPageOptions: "rows_option list")
    (el_count: int)
    (el_rowsPerPage: int)
    (el_page: int)
    (el_onPageChange: 'p)
    (el_onRowsPerPageChange: 'r)

definition TableFooterPagination ::
  "('p, 'r) TableFooterPaginationProps \<Rightarrow> ('p, 'r) element option" where
  "TableFooterPagination props =
    (let rowsPerPageOptions = generateRowsPerPageOptions (count props)
     in
     if length rowsPerPageOptions \<le> 1 then None
     else Some (TablePagination rowsPerPageOptions (count props) (rowsPerPage props)
                 (page props) (handleChangePage props) (handleChangeRowsPerPage props)))"

section \<open>The generator as a table\<close>

lemma below_cases:
  "filter (\<lambda>c. c < t) defaultOptions =
    (if t \<le> 3 then [] else if t \<le> 5 then [3] else if t \<le> 10 then [3,5]
     else if t \<le> 20 then [3,5,10] else [3,5,10,20])"
  by (simp add: defaultOptions_def)

lemma upto_cases:
  "filter (\<lambda>c. c \<le> t) defaultOptions =
    (if t < 3 then [] else if t < 5 then [3] else if t < 10 then [3,5]
     else if t < 20 then [3,5,10] else [3,5,10,20])"
  by (simp add: defaultOptions_def)

lemma Math_max_defaultOptions: "Math_max defaultOptions = Num 20"
  by (simp add: defaultOptions_def)

lemma includes_defaultOptions:
  "array_includes defaultOptions t \<longleftrightarrow> t = 3 \<or> t = 5 \<or> t = 10 \<or> t = 20"
  by (auto simp add: defaultOptions_def array_includes_def)

lemma gen_table: "generateRowsPerPageOptions t = map mkOption
  (if t \<le> 0 then [] else if t < 3 then [t] else if t = 3 then [3] else if t = 4 then [3,4]
   else if t = 5 then [3,5] else if t = 6 then [3,6] else if t < 10 then [3,5,t]
   else if t = 10 then [3,5,10] else if t = 11 then [3,5,11] else if t < 20 then [3,5,10,t]
   else [3,5,10,20])"
proof -
  consider "t \<le> 0" | "t = 1 \<or> t = 2" | "t = 3" | "t = 4" | "t = 5" | "t = 6"
    | "6 < t \<and> t < 10" | "t = 10" | "t = 11" | "11 < t \<and> t < 20" | "20 \<le> t"
    by linarith
  then show ?thesis
  proof cases
    case 1
    then show ?thesis
      by (simp add: generateRowsPerPageOptions_def upto_cases Let_def)
  next
    case 2
    then show ?thesis
      by (auto simp add: generateRowsPerPageOptions_def upto_cases below_cases Let_def
          Math_max_defaultOptions includes_defaultOptions)
  next
    case 3
    then show ?thesis
      by (simp add: generateRowsPerPageOptions_def upto_cases Let_def
          Math_max_defaultOptions includes_defaultOptions)
  next
    case 4
    then show ?thesis
      by (simp add: generateRowsPerPageOptions_def below_cases Let_def
          Math_max_defaultOptions includes_defaultOptions)
  next
    case 5
    then show ?thesis
      by (simp add: generateRowsPerPageOptions_def upto_cases Let_def
          Math_max_defaultOptions includes_defaultOptions)
  next
    case 6
    then show ?thesis
      by (simp add: generateRowsPerPageOptions_def below_cases Let_def slice_0_minus1_def
          Math_max_defaultOptions includes_defaultOptions)
  next
    case 7
    then show ?thesis
      by (simp add: generateRowsPerPageOptions_def below_cases Let_def
          Math_max_defaultOptions includes_defaultOptions)
  next
    case 8
    then show ?thesis
      by (simp add: generateRowsPerPageOptions_def upto_cases Let_def
          Math_max_defaultOptions includes_defaultOptions)
  next
    case 9
    then show ?thesis
      by (simp add: generateRowsPerPageOptions_def below_cases Let_def slice_0_minus1_def
          Math_max_defaultOptions includes_defaultOptions)
  next
    case 10
    then show ?thesis
      by (simp add: generateRowsPerPageOptions_def below_cases Let_def
          Math_max_defaultOptions includes_defaultOptions)
  next
    case 11
    then show ?thesis
      by (auto simp add: generateRowsPerPageOptions_def upto_cases Let_def
          Math_max_defaultOptions includes_defaultOptions)
  qed
qed

lemma mkOption_simps:
  "val (mkOption v) = v" "label (mkOption v) = ''Top '' @ toString v"
  by (simp_all add: mkOption_def)

lemma toString_small:
  "toString 1 = ''1''" "toString 2 = ''2''" "toString 3 = ''3''" "toString 4 = ''4''"
  "toString 5 = ''5''" "toString 6 = ''6''" "toString 7 = ''7''" "toString 10 = ''10''"
  "toString 11 = ''11''" "toString 20 = ''20''"
  by (simp_all add: toString_def digits.simps digit_char_def)

lemma vals_table: "map val (generateRowsPerPageOptions t) =
  (if t \<le> 0 then [] else if t < 3 then [t] else if t = 3 then [3] else if t = 4 then [3,4]
   else if t = 5 then [3,5] else if t = 6 then [3,6] else if t < 10 then [3,5,t]
   else if t = 10 then [3,5,10] else if t = 11 then [3,5,11] else if t < 20 then [3,5,10,t]
   else [3,5,10,20])"
  by (simp add: gen_table mkOption_simps)

section \<open>The claims\<close>

text \<open>
  Claim C1. Let \<open>t\<close> be an integer with \<open>0 < t \<le> 20\<close> that is none of 3, 5, 10, 20, let
  \<open>below\<close> be the default candidates strictly less than \<open>t\<close>, in ascending order, and let
  \<open>t\<close> be one more than the largest of them. When \<open>below\<close> has more than one element, the
  generator returns \<open>below\<close> without its last element, followed by \<open>t\<close>; when it has exactly
  one, it returns \<open>below\<close> followed by \<open>t\<close>. Each element \<open>v\<close> is the option
  \<open>mkOption v\<close>, whose label is \<^verbatim>\<open>Top \<close> followed by \<open>v\<close> in decimal.
\<close>

theorem generateRowsPerPageOptions_adjacent:
  assumes "0 < t" and "t \<le> 20" and "t \<notin> {3, 5, 10, 20}"
    and "below = filter (\<lambda>c. c < t) defaultOptions"
    and "below \<noteq> []" and "t = Max (set below) + 1"
  shows "(length below > 1 \<longrightarrow>
            generateRowsPerPageOptions t = map mkOption (butlast below @ [t])) \<and>
         (length below = 1 \<longrightarrow>
            generateRowsPerPageOptions t = map mkOption (below @ [t]))"
proof -
  consider "t \<le> 3" | "3 < t \<and> t \<le> 5" | "5 < t \<and> t \<le> 10" | "10 < t \<and> t \<le> 20"
    using assms(2) by linarith
  then show ?thesis
  proof cases
    case 1
    with assms(4,5) show ?thesis by (simp add: below_cases)
  next
    case 2
    with assms(4) have b: "below = [3]" by (simp add: below_cases)
    with assms(6) have "t = 4" by simp
    with b show ?thesis by (simp add: gen_table)
  next
    case 3
    with assms(4) have b: "below = [3, 5]" by (simp add: below_cases)
    with assms(6) have "t = 6" by simp
    with b show ?thesis by (simp add: gen_table)
  next
    case 4
    with assms(4) have b: "below = [3, 5, 10]" by (simp add: below_cases)
    with assms(6) have "t = 11" by simp
    with b show ?thesis by (simp add: gen_table)
  qed
qed

theorem generateRowsPerPageOptions_adjacent_witness:
  "(0::int) < 6 \<and> (6::int) \<le> 20 \<and> (6::int) \<notin> {3, 5, 10, 20} \<and>
   [3, 5] = filter (\<lambda>c. c < 6) defaultOptions \<and> (6::int) = Max (set [3, 5]) + 1 \<and>
   generateRowsPerPageOptions 6 = [\<lparr>label = ''Top 3'', val = 3\<rparr>, \<lparr>label = ''Top 6'', val = 6\<rparr>] \<and>
   [3] = filter (\<lambda>c. c < 4) defaultOptions \<and> (4::int) = Max (set [3]) + 1 \<and>
   generateRowsPerPageOptions 4 = [\<lparr>label = ''Top 3'', val = 3\<rparr>, \<lparr>label = ''Top 4'', val = 4\<rparr>]"
proof -
  have six: "(0::int) < 6" "(6::int) \<le> 20" "(6::int) \<notin> {3, 5, 10, 20}"
    "[3, 5] = filter (\<lambda>c. c < 6) defaultOptions" "[3, 5::int] \<noteq> []"
    "(6::int) = Max (set [3, 5]) + 1"
    by (simp_all add: below_cases)
  have four: "(0::int) < 4" "(4::int) \<le> 20" "(4::int) \<notin> {3, 5, 10, 20}"
    "[3] = filter (\<lambda>c. c < 4) defaultOptions" "[3::int] \<noteq> []"
    "(4::int) = Max (set [3]) + 1"
    by (simp_all add: below_cases)
  from generateRowsPerPageOptions_adjacent [OF six]
  have r6: "generateRowsPerPageOptions 6 = [\<lparr>label = ''Top 3'', val = 3\<rparr>, \<lparr>label = ''Top 6'', val = 6\<rparr>]"
    by (simp add: mkOption_def toString_small)
  from generateRowsPerPageOptions_adjacent [OF four]
  have r4: "generateRowsPerPageOptions 4 = [\<lparr>label = ''Top 3'', val = 3\<rparr>, \<lparr>label = ''Top 4'', val = 4\<rparr>]"
    by (simp add: mkOption_def toString_small)
  from six four r6 r4 show ?thesis by blast
qed

text \<open>
  Claim C2. Let \<open>t\<close> be an integer with \<open>0 < t \<le> 20\<close> that is none of 3, 5, 10, 20, let
  \<open>below\<close>, the default candidates strictly less than \<open>t\<close> in ascending order, be non-empty,
  and let \<open>t\<close> be greater than one plus the largest of them. Then the generator returns
  \<open>below\<close> followed by \<open>t\<close>, nothing dropped, each element labelled as \<open>mkOption\<close> does.
\<close>

theorem generateRowsPerPageOptions_gap:
  assumes "0 < t" and "t \<le> 20" and "t \<notin> {3, 5, 10, 20}"
    and "below = filter (\<lambda>c. c < t) defaultOptions"
    and "below \<noteq> []" and "t > Max (set below) + 1"
  shows "generateRowsPerPageOptions t = map mkOption (below @ [t])"
proof -
  consider "t \<le> 3" | "3 < t \<and> t \<le> 5" | "5 < t \<and> t \<le> 10" | "10 < t \<and> t \<le> 20"
    using assms(2) by linarith
  then show ?thesis
  proof cases
    case 1
    with assms(4,5) show ?thesis by (simp add: below_cases)
  next
    case 2
    with assms(4) have b: "below = [3]" by (simp add: below_cases)
    with assms(6) 2 assms(3) have "False" by simp
    then show ?thesis ..
  next
    case 3
    with assms(4) have b: "below = [3, 5]" by (simp add: below_cases)
    with assms(6) 3 assms(3) have "6 < t \<and> t < 10" by simp
    with b show ?thesis by (simp add: gen_table)
  next
    case 4
    with assms(4) have b: "below = [3, 5, 10]" by (simp add: below_cases)
    with assms(6) 4 assms(3) have "11 < t \<and> t < 20" by simp
    with b show ?thesis by (simp add: gen_table)
  qed
qed

theorem generateRowsPerPageOptions_gap_witness:
  "(0::int) < 7 \<and> (7::int) \<le> 20 \<and> (7::int) \<notin> {3, 5, 10, 20} \<and>
   filter (\<lambda>c. c < 7) defaultOptions = [3, 5] \<and> (7::int) > Max (set [3, 5]) + 1 \<and>
   generateRowsPerPageOptions 7 =
     [\<lparr>label = ''Top 3'', val = 3\<rparr>, \<lparr>label = ''Top 5'', val = 5\<rparr>, \<lparr>label = ''Top 7'', val = 7\<rparr>]"
  using generateRowsPerPageOptions_gap [of 7 "[3, 5]"]
  by (simp add: below_cases mkOption_def toString_small)

text \<open>
  Claim C3. For an integer \<open>t\<close> that is 0, greater than 20, or one of 3, 5, 10, 20, the generator
  returns the default candidates that are at most \<open>t\<close>, in their order, each labelled as
  \<open>mkOption\<close> does: all four defaults when \<open>t > 20\<close>, and the prefix of the defaults that
  ends with \<open>t\<close> when \<open>t\<close> is a default candidate.
\<close>

theorem generateRowsPerPageOptions_default_filter:
  assumes "t = 0 \<or> t > 20 \<or> t \<in> {3, 5, 10, 20}"
  shows "generateRowsPerPageOptions t = map mkOption (filter (\<lambda>c. c \<le> t) defaultOptions) \<and>
         (t > 20 \<longrightarrow> generateRowsPerPageOptions t = map mkOption defaultOptions) \<and>
         (t \<in> {3, 5, 10, 20} \<longrightarrow>
            prefix (map val (generateRowsPerPageOptions t)) defaultOptions \<and>
            last (map val (generateRowsPerPageOptions t)) = t)"
proof -
  from assms consider "t = 0" | "t > 20" | "t = 3" | "t = 5" | "t = 10" | "t = 20"
    by auto
  then show ?thesis
  proof cases
    case 1
    then show ?thesis by (simp add: gen_table upto_cases)
  next
    case 2
    then show ?thesis by (simp add: gen_table upto_cases) (simp add: defaultOptions_def)
  next
    case 3
    then show ?thesis by (simp add: gen_table upto_cases mkOption_simps defaultOptions_def)
  next
    case 4
    then show ?thesis by (simp add: gen_table upto_cases mkOption_simps defaultOptions_def)
  next
    case 5
    then show ?thesis by (simp add: gen_table upto_cases mkOption_simps defaultOptions_def)
  next
    case 6
    then show ?thesis by (simp add: gen_table upto_cases mkOption_simps defaultOptions_def)
  qed
qed

theorem generateRowsPerPageOptions_default_filter_witness:
  "generateRowsPerPageOptions 0 = [] \<and>
   generateRowsPerPageOptions 25 =
     [\<lparr>label = ''Top 3'', val = 3\<rparr>, \<lparr>label = ''Top 5'', val = 5\<rparr>,
      \<lparr>label = ''Top 10'', val = 10\<rparr>, \<lparr>label = ''Top 20'', val = 20\<rparr>] \<and>
   generateRowsPerPageOptions 10 =
     [\<lparr>label = ''Top 3'', val = 3\<rparr>, \<lparr>label = ''Top 5'', val = 5\<rparr>,
      \<lparr>label = ''Top 10'', val = 10\<rparr>]"
  using generateRowsPerPageOptions_default_filter [of 0] generateRowsPerPageOptions_default_filter [of 25] generateRowsPerPageOptions_default_filter [of 10]
  by (simp add: defaultOptions_def mkOption_def toString_small)

text \<open>
  Claim C4. The option values are [3, 4] for a count of 4, [3, 5] for 5, [3, 6] for 6,
  [3, 5, 7] for 7, [3, 5, 10] for 10, [3, 5, 11] for 11, [3, 5, 10, 20] for 20 and
  [3, 5, 10, 20] for 25.
\<close>

theorem generateRowsPerPageOptions_examples:
  "map val (generateRowsPerPageOptions 4) = [3, 4] \<and>
   map val (generateRowsPerPageOptions 5) = [3, 5] \<and>
   map val (generateRowsPerPageOptions 6) = [3, 6] \<and>
   map val (generateRowsPerPageOptions 7) = [3, 5, 7] \<and>
   map val (generateRowsPerPageOptions 10) = [3, 5, 10] \<and>
   map val (generateRowsPerPageOptions 11) = [3, 5, 11] \<and>
   map val (generateRowsPerPageOptions 20) = [3, 5, 10, 20] \<and>
   map val (generateRowsPerPageOptions 25) = [3, 5, 10, 20]"
  by (simp add: gen_table mkOption_simps)

text \<open>
  Claim C5. For every integer \<open>t \<ge> 0\<close> the values of the returned options are pairwise
  distinct, strictly ascending, and each at most \<open>t\<close>.
\<close>

theorem generateRowsPerPageOptions_ascending_bounded:
  assumes "0 \<le> t"
  shows "distinct (map val (generateRowsPerPageOptions t)) \<and>
         sorted_wrt (<) (map val (generateRowsPerPageOptions t)) \<and>
         (\<forall>v \<in> set (map val (generateRowsPerPageOptions t)). v \<le> t)"
  unfolding vals_table by simp

theorem generateRowsPerPageOptions_ascending_bounded_witness:
  "(0::int) \<le> 7 \<and> distinct (map val (generateRowsPerPageOptions 7)) \<and>
   sorted_wrt (<) (map val (generateRowsPerPageOptions 7)) \<and>
   list_all (\<lambda>v. v \<le> 7) (map val (generateRowsPerPageOptions 7))"
  using generateRowsPerPageOptions_ascending_bounded [of 7] by (simp add: list_all_iff)

text \<open>
  Claim C6. Whenever the generator returns at most one option for the count of the props, the
  component returns \<^verbatim>\<open>null\<close>; for the counts 1, 2 and 3 the generator returns at most
  one option and the component returns \<^verbatim>\<open>null\<close>.
\<close>

theorem TableFooterPagination_null_gate:
  "(length (generateRowsPerPageOptions (count props)) \<le> 1 \<longrightarrow>
      TableFooterPagination props = None) \<and>
   (count props \<in> {1, 2, 3} \<longrightarrow>
      length (generateRowsPerPageOptions (count props)) \<le> 1 \<and>
      TableFooterPagination props = None)"
proof -
  have gate: "TableFooterPagination props = None"
    if "length (generateRowsPerPageOptions (count props)) \<le> 1"
    using that by (simp add: TableFooterPagination_def Let_def)
  have small: "length (generateRowsPerPageOptions (count props)) \<le> 1"
    if "count props \<in> {1, 2, 3}"
    using that by (auto simp add: gen_table)
  from gate small show ?thesis by blast
qed

theorem TableFooterPagination_null_gate_witness:
  "length (generateRowsPerPageOptions 2) \<le> 1 \<and>
   TableFooterPagination \<lparr>count = 2, rowsPerPage = 10, page = 0,
     handleChangePage = (), handleChangeRowsPerPage = ()\<rparr> = None"
  using TableFooterPagination_null_gate [of "\<lparr>count = 2, rowsPerPage = 10, page = 0,
     handleChangePage = (), handleChangeRowsPerPage = ()\<rparr>"]
  by simp

text \<open>
  Claim C7. For a count of 0 the generator returns the empty sequence, and the component
  returns \<^verbatim>\<open>null\<close>, whatever its other props are.
\<close>

theorem zero_count_renders_nothing:
  "generateRowsPerPageOptions 0 = [] \<and>
   TableFooterPagination \<lparr>count = 0, rowsPerPage = r, page = p,
     handleChangePage = f, handleChangeRowsPerPage = g\<rparr> = None"
  by (simp add: gen_table TableFooterPagination_def)

text \<open>
  Claim C9. For the counts 1 and 2 no default candidate is strictly below the count, and the
  generator returns the one option with the label \<^verbatim>\<open>Top 1\<close> (or \<^verbatim>\<open>Top 2\<close>) and the count
  as its number, not the empty sequence; the component returns \<^verbatim>\<open>null\<close> all the same,
  since one option is not more than one.
\<close>

theorem one_and_two_single_option:
  "filter (\<lambda>c. c < 1) defaultOptions = [] \<and> filter (\<lambda>c. c < 2) defaultOptions = [] \<and>
   generateRowsPerPageOptions 1 = [\<lparr>label = ''Top 1'', val = 1\<rparr>] \<and>
   generateRowsPerPageOptions 2 = [\<lparr>label = ''Top 2'', val = 2\<rparr>] \<and>
   generateRowsPerPageOptions 1 \<noteq> [] \<and> generateRowsPerPageOptions 2 \<noteq> [] \<and>
   TableFooterPagination \<lparr>count = 1, rowsPerPage = r, page = p,
     handleChangePage = f, handleChangeRowsPerPage = g\<rparr> = None \<and>
   TableFooterPagination \<lparr>count = 2, rowsPerPage = r, page = p,
     handleChangePage = f, handleChangeRowsPerPage = g\<rparr> = None"
  by (simp add: gen_table TableFooterPagination_def below_cases mkOption_def toString_small)

text \<open>
  Claim C10. For every integer \<open>t \<ge> 0\<close> the generator returns at most four options.
\<close>

theorem generateRowsPerPageOptions_at_most_four:
  assumes "0 \<le> t"
  shows "length (generateRowsPerPageOptions t) \<le> 4"
  by (simp add: gen_table)

theorem generateRowsPerPageOptions_at_most_four_witness:
  "(0::int) \<le> 25 \<and> length (generateRowsPerPageOptions 25) \<le> 4"
  using generateRowsPerPageOptions_at_most_four [of 25] by simp

end
